theory Spec2Isabelle
  imports Complex_Main "HOL-Library.AList"
begin

section \<open>The customer-data analysis pipeline of \<^verbatim>\<open>scripts/analyze_data.py\<close>\<close>

text \<open>
  The script is one linear run: seed the generator, draw a table of customers, add two
  dependent terms, write the table, summarise it, correlate its numeric columns, and
  report a two-sample t-test. The model follows it statement by statement.

  The routines of numpy, pandas and scipy that the script calls are not part of the
  script. Those whose result the script only passes on (the random draws, the printed
  form of a float in a CSV cell, the per-column summary, the t-test) are fields of a
  record \<open>library\<close> that every definition takes as a parameter. The data frame
  operations the script relies on (construction from a dict, item access and assignment,
  element-wise arithmetic, boolean row selection, dtype selection, writing CSV lines,
  the mean and Pearson's correlation) are written out.

  A float64 value is the real number it denotes; the three special values are separate
  constructors of \<open>pyfloat\<close>. An element-wise float operation is the exact operation
  followed by the rounding function \<open>fround\<close> of the library. The aggregates (mean,
  correlation) are computed exactly.

  A statement that can raise returns \<open>Inl\<close> of the error. The messages the script prints
  and the rendering of the two figures are not modelled, nor are failures of the file
  system.
\<close>

subsection \<open>Values, errors, columns\<close>

datatype pyerror = KeyError string | ValueError | TypeError

datatype pyfloat = Fin real | NaN | PInf | NInf

datatype column = Int64 "int list" | Float64 "real list" | Object "string list"

type_synonym dataframe = "(string \<times> column) list"

fun and_then :: "pyerror + 'a \<Rightarrow> ('a \<Rightarrow> pyerror + 'b) \<Rightarrow> pyerror + 'b" where
  "and_then (Inl e) f = Inl e"
| "and_then (Inr x) f = f x"

fun col_len :: "column \<Rightarrow> nat" where
  "col_len (Int64 xs) = length xs"
| "col_len (Float64 xs) = length xs"
| "col_len (Object xs) = length xs"

text \<open>\<^verbatim>\<open>len(data)\<close>: the number of rows; \<^verbatim>\<open>data.columns\<close>: the names in order.\<close>

fun nrows :: "dataframe \<Rightarrow> nat" where
  "nrows [] = 0"
| "nrows ((k, c) # cols) = col_len c"

definition columns :: "dataframe \<Rightarrow> string list" where
  "columns df = map fst df"

text \<open>
  \<^verbatim>\<open>pd.DataFrame({...})\<close> keeps the dict's entries in the order they are written and
  raises ValueError unless all the arrays have one length.
\<close>

definition DataFrame :: "(string \<times> column) list \<Rightarrow> pyerror + dataframe" where
  "DataFrame entries =
     (if list_all (\<lambda>(k, c). col_len c = nrows entries) entries then Inr entries
      else Inl ValueError)"

text \<open>\<^verbatim>\<open>data[k]\<close> raises KeyError for a name that is not a column.\<close>

definition getitem :: "dataframe \<Rightarrow> string \<Rightarrow> pyerror + column" where
  "getitem df k = (case map_of df k of None \<Rightarrow> Inl (KeyError k) | Some c \<Rightarrow> Inr c)"

text \<open>
  \<^verbatim>\<open>data[k] = series\<close> replaces the column \<open>k\<close> where it stands and appends a new name
  at the end. The script assigns series that carry the frame's own index; a series of
  another length (which pandas would re-align on the index) is outside what the script
  does, and the model reports it as ValueError.
\<close>

definition setitem :: "dataframe \<Rightarrow> string \<Rightarrow> column \<Rightarrow> pyerror + dataframe" where
  "setitem df k c =
     (if col_len c = nrows df then Inr (AList.update k c df) else Inl ValueError)"

subsection \<open>Element-wise arithmetic on float columns\<close>

text \<open>
  \<^verbatim>\<open>ndarray.clip(lo, hi)\<close> is \<^verbatim>\<open>minimum(maximum(x, lo), hi)\<close> for every element; it
  involves no rounding.
\<close>

definition clip :: "real \<Rightarrow> real \<Rightarrow> real list \<Rightarrow> real list" where
  "clip lo hi xs = map (\<lambda>x. min (max x lo) hi) xs"

text \<open>
  The script multiplies, divides and adds float64 series only. On columns of another
  dtype pandas would do integer arithmetic or string operations; the script never
  reaches them and the model reports TypeError there.
\<close>

fun series_mul :: "(real \<Rightarrow> real) \<Rightarrow> column \<Rightarrow> real \<Rightarrow> pyerror + column" where
  "series_mul rnd (Float64 xs) k = Inr (Float64 (map (\<lambda>x. rnd (x * k)) xs))"
| "series_mul rnd c k = Inl TypeError"

fun series_div :: "(real \<Rightarrow> real) \<Rightarrow> column \<Rightarrow> real \<Rightarrow> pyerror + column" where
  "series_div rnd (Float64 xs) k = Inr (Float64 (map (\<lambda>x. rnd (x / k)) xs))"
| "series_div rnd c k = Inl TypeError"

fun series_add :: "(real \<Rightarrow> real) \<Rightarrow> column \<Rightarrow> column \<Rightarrow> pyerror + column" where
  "series_add rnd (Float64 xs) (Float64 ys) =
     (if length xs = length ys then Inr (Float64 (map2 (\<lambda>x y. rnd (x + y)) xs ys))
      else Inl ValueError)"
| "series_add rnd c d = Inl TypeError"

text \<open>
  Both operands of every sum in the script are series over the frame's own index, so
  they have one length; operands of different lengths (which pandas would align on the
  index) are reported as ValueError.
\<close>

subsection \<open>The libraries\<close>

text \<open>
  \<open>'g\<close> is the state of numpy's global generator. \<^verbatim>\<open>np.random.seed(s)\<close> replaces
  the state by one computed from \<open>s\<close> alone; every draw returns the sample array and the
  next state. \<open>ttest_ind\<close> takes scipy's \<^verbatim>\<open>equal_var\<close> argument as its third argument.
\<close>

record 'g library =
  random_seed :: "nat \<Rightarrow> 'g"
  random_normal :: "real \<Rightarrow> real \<Rightarrow> nat \<Rightarrow> 'g \<Rightarrow> real list \<times> 'g"
  random_choice :: "string list \<Rightarrow> nat \<Rightarrow> 'g \<Rightarrow> string list \<times> 'g"
  random_choice_p :: "int list \<Rightarrow> nat \<Rightarrow> real list \<Rightarrow> 'g \<Rightarrow> int list \<times> 'g"
  fround :: "real \<Rightarrow> real"
  float_repr :: "real \<Rightarrow> string"
  describe_1d :: "real list \<Rightarrow> pyfloat list"
  ttest_ind :: "real list \<Rightarrow> real list \<Rightarrow> bool \<Rightarrow> pyerror + pyfloat \<times> pyfloat"

text \<open>The draws return arrays of the size they are asked for.\<close>

definition sized :: "'g library \<Rightarrow> bool" where
  "sized lib \<longleftrightarrow>
     (\<forall>loc scale n g. length (fst (random_normal lib loc scale n g)) = n) \<and>
     (\<forall>opts n g. length (fst (random_choice lib opts n g)) = n) \<and>
     (\<forall>opts n p g. length (fst (random_choice_p lib opts n p g)) = n)"

subsection \<open>Stage 1: generating the data (lines 20 to 34)\<close>

definition n_samples :: nat where
  "n_samples = 1000"

text \<open>\<^verbatim>\<open>range(a, b)\<close>: the integers from \<open>a\<close> up to \<open>b - 1\<close>.\<close>

definition py_range :: "int \<Rightarrow> int \<Rightarrow> int list" where
  "py_range a b = [a..b - 1]"

text \<open>
  Lines 20 to 30. \<open>g0\<close> is the generator's state when the script starts. The values of
  the dict are evaluated from top to bottom, so the draws happen in the order age,
  income, spending_score, region, is_premium, each from the state the one before left.
  The stage is written for any sample count \<open>n\<close>; the script runs it with \<open>n_samples\<close>.
\<close>

definition initial_frame :: "'g library \<Rightarrow> nat \<Rightarrow> 'g \<Rightarrow> (pyerror + dataframe) \<times> 'g" where
  "initial_frame lib n g0 =
     (let g1 = random_seed lib 42;
          (age, g2) = random_normal lib 35 10 n g1;
          (income, g3) = random_normal lib 50000 15000 n g2;
          (spending_score, g4) = random_normal lib 50 20 n g3;
          (region, g5) = random_choice lib [''North'', ''South'', ''East'', ''West''] n g4;
          (is_premium, g6) = random_choice_p lib [0, 1] n [7 / 10, 3 / 10] g5
      in (DataFrame
            [(''customer_id'', Int64 (py_range 1 (int n + 1))),
             (''age'', Float64 (clip 18 70 age)),
             (''income'', Float64 (clip 20000 150000 income)),
             (''spending_score'', Float64 (clip 1 100 spending_score)),
             (''region'', Object region),
             (''is_premium'', Int64 is_premium)],
          g6))"

text \<open>Lines 33 and 34, operand by operand in Python's evaluation order.\<close>

definition add_relationships :: "(real \<Rightarrow> real) \<Rightarrow> dataframe \<Rightarrow> pyerror + dataframe" where
  "add_relationships rnd data =
     and_then (getitem data ''income'') (\<lambda>income.
     and_then (getitem data ''age'') (\<lambda>age.
     and_then (series_mul rnd age 800) (\<lambda>age_term.
     and_then (series_add rnd income age_term) (\<lambda>income'.
     and_then (setitem data ''income'' income') (\<lambda>data1.
     and_then (getitem data1 ''spending_score'') (\<lambda>spending.
     and_then (getitem data1 ''income'') (\<lambda>income1.
     and_then (series_div rnd income1 5000) (\<lambda>income_term.
     and_then (series_add rnd spending income_term) (\<lambda>spending'.
     setitem data1 ''spending_score'' spending')))))))))"

definition generate :: "'g library \<Rightarrow> nat \<Rightarrow> 'g \<Rightarrow> (pyerror + dataframe) \<times> 'g" where
  "generate lib n g0 =
     (case initial_frame lib n g0 of
        (Inl e, g) \<Rightarrow> (Inl e, g)
      | (Inr data, g) \<Rightarrow> (add_relationships (fround lib) data, g))"

text \<open>
  The arrays the five draws return, before any clipping, and the generator's state after
  them: the draws of \<open>initial_frame\<close> on their own.
\<close>

definition draws ::
  "'g library \<Rightarrow> nat \<Rightarrow> real list \<times> real list \<times> real list \<times> string list \<times> int list \<times> 'g" where
  "draws lib n =
     (let g1 = random_seed lib 42;
          (age, g2) = random_normal lib 35 10 n g1;
          (income, g3) = random_normal lib 50000 15000 n g2;
          (spending_score, g4) = random_normal lib 50 20 n g3;
          (region, g5) = random_choice lib [''North'', ''South'', ''East'', ''West''] n g4;
          (is_premium, g6) = random_choice_p lib [0, 1] n [7 / 10, 3 / 10] g5
      in (age, income, spending_score, region, is_premium, g6))"

text \<open>
  What the data model says of one row, in its own words: a value is clipped, then the
  dependent term is added, and the sum is not clipped again.
\<close>

definition clip1 :: "real \<Rightarrow> real \<Rightarrow> real \<Rightarrow> real" where
  "clip1 lo hi x = min (max x lo) hi"

definition row_income :: "(real \<Rightarrow> real) \<Rightarrow> real \<Rightarrow> real \<Rightarrow> real" where
  "row_income rnd income_draw age = rnd (clip1 20000 150000 income_draw + rnd (age * 800))"

definition row_spending_score :: "(real \<Rightarrow> real) \<Rightarrow> real \<Rightarrow> real \<Rightarrow> real" where
  "row_spending_score rnd spending_draw income =
     rnd (clip1 1 100 spending_draw + rnd (income / 5000))"

text \<open>
  What the model needs of IEEE rounding to nearest: it is monotone, and an integer of
  magnitude at most \<open>2 ^ 53\<close> is a float64 value, which rounding leaves as it is.
\<close>

definition ieee_rounding :: "(real \<Rightarrow> real) \<Rightarrow> bool" where
  "ieee_rounding rnd \<longleftrightarrow>
     (\<forall>x y. x \<le> y \<longrightarrow> rnd x \<le> rnd y) \<and>
     (\<forall>k::int. \<bar>k\<bar> \<le> 2 ^ 53 \<longrightarrow> rnd (of_int k) = of_int k)"

subsection \<open>Stage 2: writing the table (line 42)\<close>

fun str_nat :: "nat \<Rightarrow> string" where
  "str_nat n =
     (if n < 10 then [''0123456789'' ! n]
      else str_nat (n div 10) @ [''0123456789'' ! (n mod 10)])"

declare str_nat.simps [simp del]

definition str_int :: "int \<Rightarrow> string" where
  "str_int i = (if i < 0 then CHR ''-'' # str_nat (nat (- i)) else str_nat (nat i))"

text \<open>
  The csv writer quotes a field only when it holds the delimiter, a quote or a line
  break (QUOTE_MINIMAL), doubling the quotes inside.
\<close>

definition csv_field :: "string \<Rightarrow> string" where
  "csv_field s =
     (if list_ex (\<lambda>c. c = CHR '','' \<or> c = CHR 0x22 \<or> c = CHR 0x0A \<or> c = CHR 0x0D) s
      then [CHR 0x22] @ concat (map (\<lambda>c. if c = CHR 0x22 then [c, c] else [c]) s) @ [CHR 0x22]
      else s)"

fun join :: "string \<Rightarrow> string list \<Rightarrow> string" where
  "join sep [] = []"
| "join sep [x] = x"
| "join sep (x # y # ys) = x @ sep @ join sep (y # ys)"

definition csv_line :: "string list \<Rightarrow> string" where
  "csv_line fs = join '','' (map csv_field fs)"

fun cells :: "(real \<Rightarrow> string) \<Rightarrow> column \<Rightarrow> string list" where
  "cells repr (Int64 xs) = map str_int xs"
| "cells repr (Float64 xs) = map repr xs"
| "cells repr (Object xs) = xs"

text \<open>
  \<^verbatim>\<open>data.to_csv(path, index=False)\<close>, as the list of the file's lines: the header
  with the column names, then one line for each row, with no index field in front.
\<close>

definition csv_records :: "(real \<Rightarrow> string) \<Rightarrow> dataframe \<Rightarrow> string list list" where
  "csv_records repr df = columns df # transpose (map (\<lambda>(k, c). cells repr c) df)"

definition to_csv :: "(real \<Rightarrow> string) \<Rightarrow> dataframe \<Rightarrow> string list" where
  "to_csv repr df = map csv_line (csv_records repr df)"



subsection \<open>Stage 3: summary statistics (lines 46 and 47)\<close>

text \<open>
  The numeric dtypes are int64 and float64. \<^verbatim>\<open>describe()\<close> summarises the numeric
  columns of a frame that has any, each by the eight statistics of \<open>describe_1d\<close>; the
  frame of this script always has one (customer_id), so the summary pandas gives of a
  frame without numeric columns is outside the model.
\<close>

fun numeric_values :: "column \<Rightarrow> real list option" where
  "numeric_values (Int64 xs) = Some (map real_of_int xs)"
| "numeric_values (Float64 xs) = Some xs"
| "numeric_values (Object xs) = None"

definition select_dtypes_number :: "dataframe \<Rightarrow> dataframe" where
  "select_dtypes_number df = filter (\<lambda>(k, c). numeric_values c \<noteq> None) df"

definition describe :: "(real list \<Rightarrow> pyfloat list) \<Rightarrow> dataframe \<Rightarrow> (string \<times> pyfloat list) list" where
  "describe stats df =
     List.map_filter (\<lambda>(k, c). map_option (\<lambda>v. (k, stats v)) (numeric_values c)) df"

definition summary_labels :: "string list" where
  "summary_labels = [''count'', ''mean'', ''std'', ''min'', ''25%'', ''50%'', ''75%'', ''max'']"

fun summary_cell :: "(real \<Rightarrow> string) \<Rightarrow> pyfloat \<Rightarrow> string" where
  "summary_cell repr (Fin x) = repr x"
| "summary_cell repr NaN = []"
| "summary_cell repr PInf = ''inf''"
| "summary_cell repr NInf = ''-inf''"

text \<open>
  \<^verbatim>\<open>summary.to_csv(path)\<close> keeps the index: every line starts with the row's label,
  and the header with an empty field.
\<close>

definition summary_to_csv :: "(real \<Rightarrow> string) \<Rightarrow> (string \<times> pyfloat list) list \<Rightarrow> string list" where
  "summary_to_csv repr summary =
     csv_line ([] # map fst summary) #
     map2 (\<lambda>label row. csv_line (label # map (summary_cell repr) row))
       summary_labels (transpose (map snd summary))"

subsection \<open>Stage 4: the correlation matrix of the heatmap (lines 92 and 93)\<close>

text \<open>
  The two figures are rendered by matplotlib and seaborn from the frame and from the
  correlation matrix; the rendering is outside the model, the matrix is in it.

  Pearson's coefficient of two columns of one length: the sum of the products of the
  deviations from the means, over the root of the product of the two sums of squared
  deviations. pandas gives NaN when that root is zero (a column without variation) or
  when there is no row, and cuts a quotient outside \<open>[-1, 1]\<close> back to the bound.
\<close>

definition mean :: "real list \<Rightarrow> real" where
  "mean xs = sum_list xs / real (length xs)"

definition pearson :: "real list \<Rightarrow> real list \<Rightarrow> pyfloat" where
  "pearson xs ys =
     (let mx = mean xs;
          my = mean ys;
          sxx = sum_list (map (\<lambda>x. (x - mx) * (x - mx)) xs);
          syy = sum_list (map (\<lambda>y. (y - my) * (y - my)) ys);
          sxy = sum_list (map2 (\<lambda>x y. (x - mx) * (y - my)) xs ys);
          divisor = sqrt (sxx * syy)
      in if xs = [] then NaN
         else if divisor \<noteq> 0 then Fin (min 1 (max (- 1) (sxy / divisor)))
         else NaN)"



text \<open>
  \<^verbatim>\<open>numeric_data.corr()\<close>: the labels and the square matrix, one row and one column
  for each column of the frame, in the frame's order. A column that is not numeric
  cannot be converted to float (ValueError); the script has selected the numeric ones
  before.
\<close>

definition corr :: "dataframe \<Rightarrow> pyerror + string list \<times> pyfloat list list" where
  "corr df =
     (case those (map (\<lambda>(k, c). numeric_values c) df) of
        None \<Rightarrow> Inl ValueError
      | Some cols \<Rightarrow> Inr (columns df, map (\<lambda>x. map (\<lambda>y. pearson x y) cols) cols))"


subsection \<open>Stage 5: the statistical report (lines 103 to 118)\<close>

text \<open>\<^verbatim>\<open>series == v\<close>: the boolean mask of the rows that hold \<open>v\<close>.\<close>

fun eq_scalar :: "column \<Rightarrow> int \<Rightarrow> bool list" where
  "eq_scalar (Int64 xs) v = map (\<lambda>x. x = v) xs"
| "eq_scalar (Float64 xs) v = map (\<lambda>x. x = real_of_int v) xs"
| "eq_scalar (Object xs) v = map (\<lambda>x. False) xs"

definition keep :: "bool list \<Rightarrow> 'a list \<Rightarrow> 'a list" where
  "keep msk xs = map snd (filter fst (zip msk xs))"

fun col_keep :: "bool list \<Rightarrow> column \<Rightarrow> column" where
  "col_keep msk (Int64 xs) = Int64 (keep msk xs)"
| "col_keep msk (Float64 xs) = Float64 (keep msk xs)"
| "col_keep msk (Object xs) = Object (keep msk xs)"

text \<open>\<^verbatim>\<open>data[mask]\<close>: the rows the mask marks; a mask of another length is refused.\<close>

definition select_rows :: "dataframe \<Rightarrow> bool list \<Rightarrow> pyerror + dataframe" where
  "select_rows df msk =
     (if length msk = nrows df then Inr (map (\<lambda>(k, c). (k, col_keep msk c)) df)
      else Inl ValueError)"

text \<open>\<^verbatim>\<open>series.mean()\<close>: NaN for a series without rows, TypeError for strings.\<close>

definition series_mean :: "column \<Rightarrow> pyerror + pyfloat" where
  "series_mean c =
     (case numeric_values c of
        None \<Rightarrow> Inl TypeError
      | Some xs \<Rightarrow> Inr (if xs = [] then NaN else Fin (mean xs)))"

definition as_floats :: "column \<Rightarrow> pyerror + real list" where
  "as_floats c = (case numeric_values c of None \<Rightarrow> Inl TypeError | Some xs \<Rightarrow> Inr xs)"

text \<open>
  \<^verbatim>\<open>f"{x:.df}"\<close>: the sign, the integer digits, and \<open>d\<close> digits after the point, of the
  value rounded to \<open>d\<close> places, a tie going to the even neighbour. \<open>scaled d x\<close> is the
  rounded magnitude in units of the last place.
\<close>

definition round_half_even :: "real \<Rightarrow> int" where
  "round_half_even x =
     (let f = \<lfloor>x\<rfloor>; r = x - of_int f
      in if r < 1 / 2 then f else if 1 / 2 < r then f + 1 else if even f then f else f + 1)"

definition zfill :: "nat \<Rightarrow> string \<Rightarrow> string" where
  "zfill d s = replicate (d - length s) (CHR ''0'') @ s"

definition scaled :: "nat \<Rightarrow> real \<Rightarrow> nat" where
  "scaled d x = nat (round_half_even (\<bar>x\<bar> * 10 ^ d))"

fun format_f :: "nat \<Rightarrow> pyfloat \<Rightarrow> string" where
  "format_f d (Fin x) =
     (if x < 0 then ''-'' else []) @ str_nat (scaled d x div 10 ^ d) @
     (if d = 0 then [] else ''.'' @ zfill d (str_nat (scaled d x mod 10 ^ d)))"
| "format_f d NaN = ''nan''"
| "format_f d PInf = ''inf''"
| "format_f d NInf = ''-inf''"

text \<open>\<^verbatim>\<open>x < c\<close> on floats: false for NaN.\<close>

fun float_less :: "pyfloat \<Rightarrow> real \<Rightarrow> bool" where
  "float_less (Fin x) c = (x < c)"
| "float_less NaN c = False"
| "float_less PInf c = False"
| "float_less NInf c = True"

definition newline :: string where
  "newline = [CHR 0x0A]"

text \<open>The text the ten \<^verbatim>\<open>f.write\<close> calls put into the report, one after the other.\<close>

definition report_text ::
  "nat \<Rightarrow> nat \<Rightarrow> pyfloat \<Rightarrow> pyfloat \<Rightarrow> pyfloat \<Rightarrow> pyfloat \<Rightarrow> string" where
  "report_text n_premium n_non_premium mean_premium mean_non_premium t_stat p_value =
     concat
      [''Statistical Analysis Results'' @ newline,
       replicate 40 (CHR ''='') @ newline @ newline,
       ''Premium customers: '' @ str_nat n_premium @ newline,
       ''Non-premium customers: '' @ str_nat n_non_premium @ newline @ newline,
       ''Mean spending (premium): $'' @ format_f 2 mean_premium @ newline,
       ''Mean spending (non-premium): $'' @ format_f 2 mean_non_premium @ newline @ newline,
       ''T-test results:'' @ newline,
       ''  t-statistic: '' @ format_f 4 t_stat @ newline,
       ''  p-value: '' @ format_f 6 p_value @ newline,
       ''  Significant at p < 0.05: '' @
         (if float_less p_value (5 / 100) then ''YES'' else ''NO'') @ newline]"

text \<open>
  Lines 103 to 118. The script passes the two groups to \<^verbatim>\<open>stats.ttest_ind\<close> with
  the other arguments at their defaults, so \<^verbatim>\<open>equal_var\<close> is True. There is no
  check of the groups before or after the test.
\<close>

definition statistical_analysis :: "'g library \<Rightarrow> dataframe \<Rightarrow> pyerror + string" where
  "statistical_analysis lib data =
     and_then (getitem data ''is_premium'') (\<lambda>flag1.
     and_then (select_rows data (eq_scalar flag1 1)) (\<lambda>rows1.
     and_then (getitem rows1 ''spending_score'') (\<lambda>premium.
     and_then (getitem data ''is_premium'') (\<lambda>flag0.
     and_then (select_rows data (eq_scalar flag0 0)) (\<lambda>rows0.
     and_then (getitem rows0 ''spending_score'') (\<lambda>non_premium.
     and_then (as_floats premium) (\<lambda>a.
     and_then (as_floats non_premium) (\<lambda>b.
     and_then (ttest_ind lib a b True) (\<lambda>(t_stat, p_value).
     and_then (series_mean premium) (\<lambda>mean_premium.
     and_then (series_mean non_premium) (\<lambda>mean_non_premium.
     Inr (report_text (col_len premium) (col_len non_premium)
            mean_premium mean_non_premium t_stat p_value))))))))))))"

subsection \<open>The whole run\<close>

text \<open>
  What the run leaves behind: the frame, which no statement after line 34 assigns to,
  and the contents of \<^verbatim>\<open>data/raw_customer_data.csv\<close>,
  \<^verbatim>\<open>results/summary_statistics.csv\<close> and \<^verbatim>\<open>results/statistical_analysis.txt\<close>,
  with the matrix drawn into \<^verbatim>\<open>results/correlation_matrix.png\<close>. A run that fails
  returns the error alone.
\<close>

record outputs =
  out_data :: dataframe
  out_raw_csv :: "string list"
  out_summary_csv :: "string list"
  out_corr_matrix :: "string list \<times> pyfloat list list"
  out_report :: string

definition run :: "'g library \<Rightarrow> 'g \<Rightarrow> pyerror + outputs" where
  "run lib g0 =
     and_then (fst (generate lib n_samples g0)) (\<lambda>data.
     and_then (corr (select_dtypes_number data)) (\<lambda>corr_matrix.
     and_then (statistical_analysis lib data) (\<lambda>report.
     Inr \<lparr>out_data = data,
          out_raw_csv = to_csv (float_repr lib) data,
          out_summary_csv = summary_to_csv (float_repr lib) (describe (describe_1d lib) data),
          out_corr_matrix = corr_matrix,
          out_report = report\<rparr>)))"

subsection \<open>A stand-in for the libraries\<close>

text \<open>
  A small deterministic library on which the definitions can be run: the generator's
  state is a counter, a normal draw steps through four values around its mean (7 and 1
  deviations below it, 2 and 7 above), a choice cycles through its options, and the
  t-test returns NaN twice for an empty sample, as scipy's does. It is used for concrete
  runs only; no general statement depends on it.
\<close>

definition demo_normal :: "real \<Rightarrow> real \<Rightarrow> nat \<Rightarrow> nat \<Rightarrow> real list \<times> nat" where
  "demo_normal loc scale n g =
     (map (\<lambda>k. let m = (g + k) mod 4
               in loc + scale * (if m = 0 then - 7 else if m = 1 then - 1 else if m = 2 then 2 else 7))
        [0..<n],
      g + n)"

definition demo_choice :: "'a \<Rightarrow> 'a list \<Rightarrow> nat \<Rightarrow> nat \<Rightarrow> 'a list \<times> nat" where
  "demo_choice dflt opts n g =
     (map (\<lambda>k. case drop (nat (int (g + k) mod int (length opts))) opts of
                 [] \<Rightarrow> dflt
               | x # xs \<Rightarrow> x) [0..<n],
      g + n)"

definition demo_ttest :: "real list \<Rightarrow> real list \<Rightarrow> bool \<Rightarrow> pyerror + pyfloat \<times> pyfloat" where
  "demo_ttest a b equal_var =
     (if a = [] \<or> b = [] then Inr (NaN, NaN) else Inr (Fin (mean a - mean b), Fin (1 / 100)))"

definition demo_library :: "nat library" where
  "demo_library =
     \<lparr>random_seed = (\<lambda>s. s),
      random_normal = demo_normal,
      random_choice = demo_choice [],
      random_choice_p = (\<lambda>opts n p g. demo_choice 0 opts n g),
      fround = (\<lambda>x. x),
      float_repr = (\<lambda>x. format_f 2 (Fin x)),
      describe_1d = (\<lambda>xs. Fin (real (length xs)) # replicate 7 NaN),
      ttest_ind = demo_ttest\<rparr>"

text \<open>The frame the generation stage returns for four rows of the stand-in.\<close>

definition demo_frame :: dataframe where
  "demo_frame =
     [(''customer_id'', Int64 [1, 2, 3, 4]),
      (''age'', Float64 [55, 70, 18, 25]),
      (''income'', Float64 [124000, 206000, 34400, 55000]),
      (''spending_score'', Float64 [574 / 5, 706 / 5, 197 / 25, 41]),
      (''region'', Object [''East'', ''West'', ''North'', ''South'']),
      (''is_premium'', Int64 [0, 1, 0, 1])]"


definition first_choice_library :: "nat library" where
  "first_choice_library =
     demo_library\<lparr>random_choice_p := (\<lambda>opts n p g. demo_choice 0 (take 1 opts) n g)\<rparr>"

definition demo_frame_no_premium :: dataframe where
  "demo_frame_no_premium =
     [(''customer_id'', Int64 [1, 2, 3, 4]),
      (''age'', Float64 [55, 70, 18, 25]),
      (''income'', Float64 [124000, 206000, 34400, 55000]),
      (''spending_score'', Float64 [574 / 5, 706 / 5, 197 / 25, 41]),
      (''region'', Object [''East'', ''West'', ''North'', ''South'']),
      (''is_premium'', Int64 [0, 0, 0, 0])]"

section \<open>Properties\<close>

subsection \<open>Running the generation stage\<close>

text \<open>
  With a library whose draws have the size asked for, the frame is built and the two
  assignments succeed; \<open>generate_closed\<close> gives the frame in terms of the draws and
  \<open>generate_rows\<close> gives its rows.
\<close>

lemma and_then_Inr_iff: "and_then m f = Inr y \<longleftrightarrow> (\<exists>x. m = Inr x \<and> f x = Inr y)"
  by (cases m) simp_all

lemma length_py_range: "length (py_range a b) = nat (b - a)"
  by (simp add: py_range_def)

lemma nth_py_range: "int k < b - a \<Longrightarrow> py_range a b ! k = a + int k"
  by (simp add: py_range_def)

lemma draws_lengths:
  assumes "sized lib" and "draws lib n = (a, i, s, r, p, g)"
  shows "length a = n" and "length i = n" and "length s = n" and "length r = n"
    and "length p = n"
  using assms unfolding sized_def draws_def
  by (auto simp: Let_def split: prod.splits) (metis fst_conv)+

lemma initial_frame_draws:
  assumes "draws lib n = (a, i, s, r, p, g)"
  shows "initial_frame lib n g0 =
     (DataFrame
        [(''customer_id'', Int64 (py_range 1 (int n + 1))),
         (''age'', Float64 (clip 18 70 a)),
         (''income'', Float64 (clip 20000 150000 i)),
         (''spending_score'', Float64 (clip 1 100 s)),
         (''region'', Object r),
         (''is_premium'', Int64 p)], g)"
  using assms unfolding initial_frame_def draws_def
  by (auto simp: Let_def split: prod.splits)

lemma initial_frame_closed:
  assumes "sized lib" and "draws lib n = (a, i, s, r, p, g)"
  shows "initial_frame lib n g0 =
     (Inr [(''customer_id'', Int64 (py_range 1 (int n + 1))),
           (''age'', Float64 (clip 18 70 a)),
           (''income'', Float64 (clip 20000 150000 i)),
           (''spending_score'', Float64 (clip 1 100 s)),
           (''region'', Object r),
           (''is_premium'', Int64 p)], g)"
  using draws_lengths[OF assms] initial_frame_draws[OF assms(2), of g0]
  by (simp add: DataFrame_def clip_def length_py_range)

lemma add_relationships_closed:
  assumes "length c = n" "length a = n" "length i = n" "length s = n" "length r = n"
    "length p = n"
  shows "add_relationships rnd
           [(''customer_id'', Int64 c), (''age'', Float64 a), (''income'', Float64 i),
            (''spending_score'', Float64 s), (''region'', Object r), (''is_premium'', Int64 p)] =
         Inr [(''customer_id'', Int64 c),
              (''age'', Float64 a),
              (''income'', Float64 (map2 (\<lambda>x y. rnd (x + y)) i (map (\<lambda>x. rnd (x * 800)) a))),
              (''spending_score'', Float64 (map2 (\<lambda>x y. rnd (x + y)) s
                 (map (\<lambda>x. rnd (x / 5000))
                    (map2 (\<lambda>x y. rnd (x + y)) i (map (\<lambda>x. rnd (x * 800)) a))))),
              (''region'', Object r),
              (''is_premium'', Int64 p)]"
  using assms by (simp add: add_relationships_def getitem_def setitem_def)

lemma generate_closed:
  assumes "sized lib" and "draws lib n = (a, i, s, r, p, g)"
  shows "generate lib n g0 =
     (Inr [(''customer_id'', Int64 (py_range 1 (int n + 1))),
           (''age'', Float64 (clip 18 70 a)),
           (''income'', Float64 (map2 (\<lambda>x y. fround lib (x + y)) (clip 20000 150000 i)
              (map (\<lambda>x. fround lib (x * 800)) (clip 18 70 a)))),
           (''spending_score'', Float64 (map2 (\<lambda>x y. fround lib (x + y)) (clip 1 100 s)
              (map (\<lambda>x. fround lib (x / 5000))
                 (map2 (\<lambda>x y. fround lib (x + y)) (clip 20000 150000 i)
                    (map (\<lambda>x. fround lib (x * 800)) (clip 18 70 a)))))),
           (''region'', Object r),
           (''is_premium'', Int64 p)], g)"
proof -
  note len = draws_lengths[OF assms]
  have "add_relationships (fround lib)
          [(''customer_id'', Int64 (py_range 1 (int n + 1))),
           (''age'', Float64 (clip 18 70 a)),
           (''income'', Float64 (clip 20000 150000 i)),
           (''spending_score'', Float64 (clip 1 100 s)),
           (''region'', Object r),
           (''is_premium'', Int64 p)] = Inr [(''customer_id'', Int64 (py_range 1 (int n + 1))),
           (''age'', Float64 (clip 18 70 a)),
           (''income'', Float64 (map2 (\<lambda>x y. fround lib (x + y)) (clip 20000 150000 i)
              (map (\<lambda>x. fround lib (x * 800)) (clip 18 70 a)))),
           (''spending_score'', Float64 (map2 (\<lambda>x y. fround lib (x + y)) (clip 1 100 s)
              (map (\<lambda>x. fround lib (x / 5000))
                 (map2 (\<lambda>x y. fround lib (x + y)) (clip 20000 150000 i)
                    (map (\<lambda>x. fround lib (x * 800)) (clip 18 70 a)))))),
           (''region'', Object r),
           (''is_premium'', Int64 p)]"
    by (rule add_relationships_closed[where n = n]) (simp_all add: len clip_def length_py_range)
  then show ?thesis
    by (simp add: generate_def initial_frame_closed[OF assms])
qed

lemma generate_rows:
  assumes "sized lib" and "draws lib n = (a, i, s, r, p, g)"
  shows "\<exists>age income spending.
      generate lib n g0 =
        (Inr [(''customer_id'', Int64 (py_range 1 (int n + 1))),
              (''age'', Float64 age),
              (''income'', Float64 income),
              (''spending_score'', Float64 spending),
              (''region'', Object r),
              (''is_premium'', Int64 p)], g) \<and>
      length age = n \<and> length income = n \<and> length spending = n \<and>
      (\<forall>k<n. age ! k = clip1 18 70 (a ! k) \<and>
              income ! k = row_income (fround lib) (i ! k) (age ! k) \<and>
              spending ! k = row_spending_score (fround lib) (s ! k) (income ! k))"
  using draws_lengths[OF assms]
  by (simp add: generate_closed[OF assms] clip_def clip1_def row_income_def
      row_spending_score_def)

lemma run_keeps_data:
  assumes "run lib g0 = Inr out"
  shows "fst (generate lib n_samples g0) = Inr (out_data out)"
  using assms unfolding run_def by (auto simp: and_then_Inr_iff)

subsection \<open>The bounds of one row\<close>

lemma clip1_bounds: "lo \<le> hi \<Longrightarrow> lo \<le> clip1 lo hi x \<and> clip1 lo hi x \<le> hi"
  by (simp add: clip1_def)

lemma ieee_rounding_mono: "ieee_rounding rnd \<Longrightarrow> x \<le> y \<Longrightarrow> rnd x \<le> rnd y"
  by (simp add: ieee_rounding_def)

lemma ieee_rounding_int:
  assumes "ieee_rounding rnd" and "\<bar>k\<bar> \<le> 2 ^ 53"
  shows "rnd (real_of_int k) = real_of_int k"
  using assms by (simp add: ieee_rounding_def)

lemma ieee_rounding_between:
  assumes "ieee_rounding rnd" and "\<bar>lo\<bar> \<le> 2 ^ 53" and "\<bar>hi\<bar> \<le> 2 ^ 53"
    and "real_of_int lo \<le> x" and "x \<le> real_of_int hi"
  shows "real_of_int lo \<le> rnd x \<and> rnd x \<le> real_of_int hi"
  using ieee_rounding_mono[OF assms(1) assms(4)] ieee_rounding_mono[OF assms(1) assms(5)]
    ieee_rounding_int[OF assms(1) assms(2)] ieee_rounding_int[OF assms(1) assms(3)]
  by simp

lemma ieee_rounding_id: "ieee_rounding (\<lambda>x. x)"
  by (simp add: ieee_rounding_def)

lemma row_income_bounds:
  assumes "ieee_rounding rnd" and "18 \<le> age" and "age \<le> 70"
  shows "34400 \<le> row_income rnd d age \<and> row_income rnd d age \<le> 206000"
proof -
  have t: "14400 \<le> rnd (age * 800) \<and> rnd (age * 800) \<le> 56000"
    using ieee_rounding_between[OF assms(1), of 14400 56000 "age * 800"] assms(2,3) by simp
  have c: "20000 \<le> clip1 20000 150000 d \<and> clip1 20000 150000 d \<le> 150000"
    by (rule clip1_bounds) simp
  show ?thesis
    unfolding row_income_def
    using ieee_rounding_between[OF assms(1), of 34400 206000
        "clip1 20000 150000 d + rnd (age * 800)"] t c
    by simp
qed

lemma row_spending_score_above:
  assumes "ieee_rounding rnd" and "34400 \<le> income" and "100 \<le> d"
  shows "100 < row_spending_score rnd d income"
proof -
  have "rnd 6 \<le> rnd (income / 5000)"
    using assms(2) by (intro ieee_rounding_mono[OF assms(1)]) simp
  moreover have "rnd 6 = 6"
    using ieee_rounding_int[OF assms(1), of 6] by simp
  ultimately have t: "6 \<le> rnd (income / 5000)"
    by simp
  have c: "clip1 1 100 d = 100"
    using assms(3) by (simp add: clip1_def)
  have "rnd 106 \<le> rnd (100 + rnd (income / 5000))"
    using t by (intro ieee_rounding_mono[OF assms(1)]) simp
  moreover have "rnd 106 = 106"
    using ieee_rounding_int[OF assms(1), of 106] by simp
  ultimately show ?thesis
    by (simp add: row_spending_score_def c)
qed

subsection \<open>The lines of a frame whose columns have one length\<close>






subsection \<open>Pearson's coefficient\<close>















subsection \<open>The analysis of a generated frame\<close>

text \<open>
  Selecting rows by a mask of flags is partitioning the pairs of flag and score;
  \<open>statistical_analysis_generated\<close> gives the analysis in terms of the two groups.
\<close>

lemma keep_partition:
  "keep (map P xs) ys = map snd (filter (\<lambda>(x, y). P x) (zip xs ys))"
  by (simp add: keep_def zip_map1 filter_map comp_def case_prod_unfold)

lemma statistical_analysis_frame:
  assumes "length ids = n" "length age = n" "length income = n" "length scores = n"
    "length region = n" "length flags = n"
  shows "statistical_analysis lib
           [(''customer_id'', Int64 ids), (''age'', Float64 age), (''income'', Float64 income),
            (''spending_score'', Float64 scores), (''region'', Object region),
            (''is_premium'', Int64 flags)] =
         and_then
           (ttest_ind lib (keep (map (\<lambda>x. x = 1) flags) scores)
              (keep (map (\<lambda>x. x = 0) flags) scores) True)
           (\<lambda>(t_stat, p_value).
              Inr (report_text (length (keep (map (\<lambda>x. x = 1) flags) scores))
                     (length (keep (map (\<lambda>x. x = 0) flags) scores))
                     (if keep (map (\<lambda>x. x = 1) flags) scores = [] then NaN
                      else Fin (mean (keep (map (\<lambda>x. x = 1) flags) scores)))
                     (if keep (map (\<lambda>x. x = 0) flags) scores = [] then NaN
                      else Fin (mean (keep (map (\<lambda>x. x = 0) flags) scores)))
                     t_stat p_value))"
  using assms
  by (simp add: statistical_analysis_def getitem_def select_rows_def as_floats_def
      series_mean_def)

lemma statistical_analysis_generated:
  assumes "sized lib" and "draws lib n = (a, i, s, r, flags, g)"
  shows "\<exists>data scores.
      generate lib n g0 = (Inr data, g) \<and>
      getitem data ''is_premium'' = Inr (Int64 flags) \<and>
      getitem data ''spending_score'' = Inr (Float64 scores) \<and>
      length flags = n \<and> length scores = n \<and>
      statistical_analysis lib data =
        and_then
          (ttest_ind lib (map snd (filter (\<lambda>(f, x). f = 1) (zip flags scores)))
             (map snd (filter (\<lambda>(f, x). f = 0) (zip flags scores))) True)
          (\<lambda>(t_stat, p_value).
             Inr (report_text
                    (length (map snd (filter (\<lambda>(f, x). f = 1) (zip flags scores))))
                    (length (map snd (filter (\<lambda>(f, x). f = 0) (zip flags scores))))
                    (if map snd (filter (\<lambda>(f, x). f = 1) (zip flags scores)) = [] then NaN
                     else Fin (mean (map snd (filter (\<lambda>(f, x). f = 1) (zip flags scores)))))
                    (if map snd (filter (\<lambda>(f, x). f = 0) (zip flags scores)) = [] then NaN
                     else Fin (mean (map snd (filter (\<lambda>(f, x). f = 0) (zip flags scores)))))
                    t_stat p_value))"
proof -
  obtain age income spending where
    run: "generate lib n g0 =
        (Inr [(''customer_id'', Int64 (py_range 1 (int n + 1))),
              (''age'', Float64 age),
              (''income'', Float64 income),
              (''spending_score'', Float64 spending),
              (''region'', Object r),
              (''is_premium'', Int64 flags)], g)"
    and rows: "length age = n" "length income = n" "length spending = n"
    using generate_rows[OF assms, of g0] by blast
  note len = draws_lengths[OF assms]
  define data where "data = [(''customer_id'', Int64 (py_range 1 (int n + 1))),
              (''age'', Float64 age),
              (''income'', Float64 income),
              (''spending_score'', Float64 spending),
              (''region'', Object r),
              (''is_premium'', Int64 flags)]"
  have ids: "length (py_range 1 (int n + 1)) = n"
    by (simp add: length_py_range)
  note closed = statistical_analysis_frame[OF ids rows(1,2,3) len(4,5), of lib,
      folded data_def, unfolded keep_partition]
  have g1: "getitem data ''is_premium'' = Inr (Int64 flags)"
    and g2: "getitem data ''spending_score'' = Inr (Float64 spending)"
    by (simp_all add: data_def getitem_def)
  from run have "generate lib n g0 = (Inr data, g)"
    by (simp add: data_def)
  with g1 g2 len(5) rows(3) closed show ?thesis
    by (intro exI conjI)
qed

lemma no_flag_no_group:
  assumes "v \<notin> set flags"
  shows "map snd (filter (\<lambda>(f, x). f = v) (zip flags scores)) = []"
  using assms by (auto simp: filter_empty_conv dest: set_zip_leftD)

lemma and_then_Inl_pair:
  "and_then m (\<lambda>(t, p). Inr (f t p)) = Inl e \<longleftrightarrow> m = Inl e"
  by (cases m) (simp_all add: case_prod_unfold)

lemma separator: "replicate 40 (CHR ''='') = ''========================================''"
  by (simp add: eval_nat_numeral)

subsection \<open>Runs of the stand-in\<close>

lemma sized_demo_library: "sized demo_library"
  by (simp add: sized_def demo_library_def demo_normal_def demo_choice_def)

lemma fround_demo_library: "fround demo_library = (\<lambda>x. x)"
  by (simp add: demo_library_def)

lemma ieee_rounding_demo_library: "ieee_rounding (fround demo_library)"
  by (simp add: fround_demo_library ieee_rounding_id)


lemma float_repr_demo_library: "float_repr demo_library x = format_f 2 (Fin x)"
  by (simp add: demo_library_def)

lemma draws_demo_library_4:
  "draws demo_library 4 =
     ([55, 105, - 35, 25], [80000, 155000, - 55000, 35000], [90, 190, - 90, 30],
      [''East'', ''West'', ''North'', ''South''], [0, 1, 0, 1], 62)"
  by (simp add: draws_def demo_library_def demo_normal_def demo_choice_def Let_def upt_rec)

lemma initial_frame_demo_library_4:
  "initial_frame demo_library 4 g0 =
     (Inr [(''customer_id'', Int64 [1, 2, 3, 4]),
           (''age'', Float64 [55, 70, 18, 25]),
           (''income'', Float64 [80000, 150000, 20000, 35000]),
           (''spending_score'', Float64 [90, 100, 1, 30]),
           (''region'', Object [''East'', ''West'', ''North'', ''South'']),
           (''is_premium'', Int64 [0, 1, 0, 1])], 62)"
  by (simp add: initial_frame_closed[OF sized_demo_library draws_demo_library_4]
      clip_def py_range_def upto_rec1)

lemma generate_demo_library_4: "generate demo_library 4 g0 = (Inr demo_frame, 62)"
  by (simp add: generate_closed[OF sized_demo_library draws_demo_library_4]
      fround_demo_library clip_def py_range_def upto_rec1 demo_frame_def)


lemma to_csv_demo_frame:
  "to_csv (float_repr demo_library) demo_frame =
     [''customer_id,age,income,spending_score,region,is_premium'',
      ''1,55.00,124000.00,114.80,East,0'',
      ''2,70.00,206000.00,141.20,West,1'',
      ''3,18.00,34400.00,7.88,North,0'',
      ''4,25.00,55000.00,41.00,South,1'']"
  by (simp add: to_csv_def csv_records_def demo_frame_def columns_def csv_line_def csv_field_def
      float_repr_demo_library str_int_def str_nat.simps scaled_def round_half_even_def zfill_def
      Let_def)



text \<open>The variant without premium customers, for four rows and for the script's 1000.\<close>

lemma sized_first_choice_library: "sized first_choice_library"
  by (simp add: sized_def first_choice_library_def demo_library_def demo_normal_def
      demo_choice_def)

lemma fround_first_choice_library: "fround first_choice_library = (\<lambda>x. x)"
  by (simp add: first_choice_library_def demo_library_def)

lemma ttest_ind_first_choice_library: "ttest_ind first_choice_library = demo_ttest"
  by (simp add: first_choice_library_def demo_library_def)

lemma draws_first_choice_library_4:
  "draws first_choice_library 4 =
     ([55, 105, - 35, 25], [80000, 155000, - 55000, 35000], [90, 190, - 90, 30],
      [''East'', ''West'', ''North'', ''South''], [0, 0, 0, 0], 62)"
  by (simp add: draws_def first_choice_library_def demo_library_def demo_normal_def
      demo_choice_def Let_def upt_rec)

lemma generate_first_choice_library_4:
  "generate first_choice_library 4 g0 = (Inr demo_frame_no_premium, 62)"
  by (simp add: generate_closed[OF sized_first_choice_library draws_first_choice_library_4]
      fround_first_choice_library clip_def py_range_def upto_rec1 demo_frame_no_premium_def)





section \<open>The claims\<close>

text \<open>
  Claim C1. The generation stage is deterministic for its seed: whatever state the
  generator is in when the stage starts, the stage seeds it with 42 first, so two runs
  with one sample count return the same frame, column for column, and leave the
  generator in the same state.
\<close>

theorem generation_deterministic:
  "generate lib n g0 = generate lib n g0'"
  by (simp add: generate_def initial_frame_def)

theorem generation_deterministic_witness:
  "generate demo_library 4 0 = generate demo_library 4 999 \<and>
   fst (generate demo_library 4 0) = Inr demo_frame"
  using generation_deterministic[of demo_library 4 0 999]
  by (simp add: generate_demo_library_4)

text \<open>
  Claim C2. With \<open>a\<close>, \<open>i\<close> and \<open>s\<close> the arrays the three normal draws return, row
  \<open>k\<close> of the generated frame holds: the age draw clipped to \<open>[18, 70]\<close>; the income
  draw clipped to \<open>[20000, 150000]\<close> plus that age times 800; the spending draw clipped
  to \<open>[1, 100]\<close> plus that final income over 5000. The sums are the final values: nothing
  clips them again.
\<close>

theorem derived_fields_clip_then_adjust:
  assumes "sized lib" and "draws lib n = (a, i, s, r, p, g)"
  shows "\<exists>data age income spending.
      generate lib n g0 = (Inr data, g) \<and>
      getitem data ''age'' = Inr (Float64 age) \<and>
      getitem data ''income'' = Inr (Float64 income) \<and>
      getitem data ''spending_score'' = Inr (Float64 spending) \<and>
      length age = n \<and> length income = n \<and> length spending = n \<and>
      (\<forall>k<n. age ! k = clip1 18 70 (a ! k) \<and>
              income ! k = row_income (fround lib) (i ! k) (age ! k) \<and>
              spending ! k = row_spending_score (fround lib) (s ! k) (income ! k))"
proof -
  obtain age income spending where
    run: "generate lib n g0 =
        (Inr [(''customer_id'', Int64 (py_range 1 (int n + 1))),
              (''age'', Float64 age),
              (''income'', Float64 income),
              (''spending_score'', Float64 spending),
              (''region'', Object r),
              (''is_premium'', Int64 p)], g)"
    and rows: "length age = n" "length income = n" "length spending = n"
      "\<forall>k<n. age ! k = clip1 18 70 (a ! k) \<and>
              income ! k = row_income (fround lib) (i ! k) (age ! k) \<and>
              spending ! k = row_spending_score (fround lib) (s ! k) (income ! k)"
    using generate_rows[OF assms, of g0] by blast
  show ?thesis
    unfolding run using rows by (simp add: getitem_def)
qed

theorem derived_fields_clip_then_adjust_witness:
  "sized demo_library \<and>
   draws demo_library 4 =
     ([55, 105, - 35, 25], [80000, 155000, - 55000, 35000], [90, 190, - 90, 30],
      [''East'', ''West'', ''North'', ''South''], [0, 1, 0, 1], 62) \<and>
   generate demo_library 4 0 = (Inr demo_frame, 62) \<and>
   row_income (fround demo_library) 155000 70 = 206000 \<and>
   row_spending_score (fround demo_library) 190 206000 = 706 / 5"
proof -
  obtain data age income spending where
    run: "generate demo_library 4 0 = (Inr data, 62)"
    and cols: "getitem data ''age'' = Inr (Float64 age)"
      "getitem data ''income'' = Inr (Float64 income)"
      "getitem data ''spending_score'' = Inr (Float64 spending)"
    and rows: "\<forall>k<4. age ! k = clip1 18 70 ([55, 105, - 35, 25] ! k) \<and>
              income ! k = row_income (fround demo_library) ([80000, 155000, - 55000, 35000] ! k) (age ! k) \<and>
              spending ! k = row_spending_score (fround demo_library) ([90, 190, - 90, 30] ! k) (income ! k)"
    using derived_fields_clip_then_adjust[OF sized_demo_library draws_demo_library_4, of 0]
    by blast
  from run have data: "data = demo_frame"
    by (simp add: generate_demo_library_4)
  from cols have v: "age ! 1 = 70" "income ! 1 = 206000" "spending ! 1 = 706 / 5"
    by (auto simp: data demo_frame_def getitem_def)
  have "age ! 1 = clip1 18 70 105 \<and>
     income ! 1 = row_income (fround demo_library) 155000 (age ! 1) \<and>
     spending ! 1 = row_spending_score (fround demo_library) 190 (income ! 1)"
    using rows[rule_format, of 1] by simp
  then show ?thesis
    using v by (simp add: sized_demo_library draws_demo_library_4 generate_demo_library_4)
qed

text \<open>
  Claim C3, as far as it holds. When no row is flagged 1, or none is flagged 0, one of
  the two groups is empty. The analysis has no check of its own for that: it fails
  exactly when the t-test routine fails, with the routine's error. When the routine
  returns a statistic and a p-value, the report is written as for any other table, with
  the size 0 for the empty group and its mean printed as \<^verbatim>\<open>nan\<close>.
\<close>

theorem empty_group_report:
  assumes "sized lib" and "draws lib n = (a, i, s, r, flags, g)"
    and "1 \<notin> set flags \<or> 0 \<notin> set flags"
  shows "\<exists>data scores premium non_premium.
      generate lib n g0 = (Inr data, g) \<and>
      getitem data ''is_premium'' = Inr (Int64 flags) \<and>
      getitem data ''spending_score'' = Inr (Float64 scores) \<and>
      premium = map snd (filter (\<lambda>(f, x). f = 1) (zip flags scores)) \<and>
      non_premium = map snd (filter (\<lambda>(f, x). f = 0) (zip flags scores)) \<and>
      (premium = [] \<or> non_premium = []) \<and>
      (\<forall>e. statistical_analysis lib data = Inl e \<longleftrightarrow>
           ttest_ind lib premium non_premium True = Inl e) \<and>
      (\<forall>t_stat p_value. ttest_ind lib premium non_premium True = Inr (t_stat, p_value) \<longrightarrow>
         statistical_analysis lib data =
           Inr (concat
             [''Statistical Analysis Results'' @ newline,
              replicate 40 (CHR ''='') @ newline @ newline,
              ''Premium customers: '' @ str_nat (length premium) @ newline,
              ''Non-premium customers: '' @ str_nat (length non_premium) @ newline @ newline,
              ''Mean spending (premium): $'' @
                (if premium = [] then ''nan'' else format_f 2 (Fin (mean premium))) @ newline,
              ''Mean spending (non-premium): $'' @
                (if non_premium = [] then ''nan'' else format_f 2 (Fin (mean non_premium))) @
                newline @ newline,
              ''T-test results:'' @ newline,
              ''  t-statistic: '' @ format_f 4 t_stat @ newline,
              ''  p-value: '' @ format_f 6 p_value @ newline,
              ''  Significant at p < 0.05: '' @
                (if float_less p_value (5 / 100) then ''YES'' else ''NO'') @ newline]))"
proof -
  from statistical_analysis_generated[OF assms(1,2), of g0]
  obtain data scores where
    run: "generate lib n g0 = (Inr data, g)"
    and cols: "getitem data ''is_premium'' = Inr (Int64 flags)"
      "getitem data ''spending_score'' = Inr (Float64 scores)"
    and closed: "statistical_analysis lib data =
        and_then
          (ttest_ind lib (map snd (filter (\<lambda>(f, x). f = 1) (zip flags scores)))
             (map snd (filter (\<lambda>(f, x). f = 0) (zip flags scores))) True)
          (\<lambda>(t_stat, p_value).
             Inr (report_text
                    (length (map snd (filter (\<lambda>(f, x). f = 1) (zip flags scores))))
                    (length (map snd (filter (\<lambda>(f, x). f = 0) (zip flags scores))))
                    (if map snd (filter (\<lambda>(f, x). f = 1) (zip flags scores)) = [] then NaN
                     else Fin (mean (map snd (filter (\<lambda>(f, x). f = 1) (zip flags scores)))))
                    (if map snd (filter (\<lambda>(f, x). f = 0) (zip flags scores)) = [] then NaN
                     else Fin (mean (map snd (filter (\<lambda>(f, x). f = 0) (zip flags scores)))))
                    t_stat p_value))"
    by (elim exE conjE) (rule that)
  define premium where "premium = map snd (filter (\<lambda>(f, x). f = 1) (zip flags scores))"
  define non_premium where "non_premium = map snd (filter (\<lambda>(f, x). f = 0) (zip flags scores))"
  note closed' = closed[folded premium_def non_premium_def]
  have empty: "premium = [] \<or> non_premium = []"
    using assms(3) no_flag_no_group[of 1 flags scores] no_flag_no_group[of 0 flags scores]
    unfolding premium_def non_premium_def by blast
  have err: "\<forall>e. statistical_analysis lib data = Inl e \<longleftrightarrow>
           ttest_ind lib premium non_premium True = Inl e"
    unfolding closed' by (simp add: and_then_Inl_pair)
  have ok: "\<forall>t_stat p_value. ttest_ind lib premium non_premium True = Inr (t_stat, p_value) \<longrightarrow>
         statistical_analysis lib data =
           Inr (concat
             [''Statistical Analysis Results'' @ newline,
              replicate 40 (CHR ''='') @ newline @ newline,
              ''Premium customers: '' @ str_nat (length premium) @ newline,
              ''Non-premium customers: '' @ str_nat (length non_premium) @ newline @ newline,
              ''Mean spending (premium): $'' @
                (if premium = [] then ''nan'' else format_f 2 (Fin (mean premium))) @ newline,
              ''Mean spending (non-premium): $'' @
                (if non_premium = [] then ''nan'' else format_f 2 (Fin (mean non_premium))) @
                newline @ newline,
              ''T-test results:'' @ newline,
              ''  t-statistic: '' @ format_f 4 t_stat @ newline,
              ''  p-value: '' @ format_f 6 p_value @ newline,
              ''  Significant at p < 0.05: '' @
                (if float_less p_value (5 / 100) then ''YES'' else ''NO'') @ newline])"
    by (simp add: closed' report_text_def)
  from run cols premium_def non_premium_def empty err ok show ?thesis
    by (intro exI conjI)
qed

theorem empty_group_report_witness:
  "sized first_choice_library \<and>
   draws first_choice_library 4 =
     ([55, 105, - 35, 25], [80000, 155000, - 55000, 35000], [90, 190, - 90, 30],
      [''East'', ''West'', ''North'', ''South''], [0, 0, 0, 0], 62) \<and>
   (1::int) \<notin> set [0, 0, 0, 0] \<and>
   generate first_choice_library 4 0 = (Inr demo_frame_no_premium, 62) \<and>
   ttest_ind first_choice_library [] [574 / 5, 706 / 5, 197 / 25, 41] True = Inr (NaN, NaN) \<and>
   (\<exists>text. statistical_analysis first_choice_library demo_frame_no_premium = Inr text)"
proof -
  have none: "(1::int) \<notin> set [0, 0, 0, 0] \<or> (0::int) \<notin> set [0, 0, 0, 0]"
    by simp
  from empty_group_report[OF sized_first_choice_library draws_first_choice_library_4 none, of 0]
  obtain data scores premium non_premium where
    run: "generate first_choice_library 4 0 = (Inr data, 62)"
    and scores: "getitem data ''spending_score'' = Inr (Float64 scores)"
    and premium: "premium = map snd (filter (\<lambda>(f, x). f = 1) (zip [0, 0, 0, 0::int] scores))"
    and non_premium:
      "non_premium = map snd (filter (\<lambda>(f, x). f = 0) (zip [0, 0, 0, 0::int] scores))"
    and err: "\<forall>e. statistical_analysis first_choice_library data = Inl e \<longleftrightarrow>
           ttest_ind first_choice_library premium non_premium True = Inl e"
    by (elim exE conjE) (rule that)
  from run have data: "data = demo_frame_no_premium"
    by (simp add: generate_first_choice_library_4)
  from scores have sc: "scores = [574 / 5, 706 / 5, 197 / 25, 41]"
    by (simp add: data demo_frame_no_premium_def getitem_def)
  have groups: "premium = []" "non_premium = [574 / 5, 706 / 5, 197 / 25, 41]"
    by (simp_all add: premium non_premium sc)
  have test: "ttest_ind first_choice_library [] [574 / 5, 706 / 5, 197 / 25, 41] True =
      Inr (NaN, NaN)"
    by (simp add: ttest_ind_first_choice_library demo_ttest_def)
  have "\<exists>text. statistical_analysis first_choice_library demo_frame_no_premium = Inr text"
  proof (cases "statistical_analysis first_choice_library demo_frame_no_premium")
    case (Inl e)
    with err test show ?thesis
      by (simp add: data groups)
  next
    case (Inr report)
    then show ?thesis by simp
  qed
  with test show ?thesis
    by (simp add: sized_first_choice_library draws_first_choice_library_4
        generate_first_choice_library_4)
qed

text \<open>
  Claim C3 as it is stated asks for an error. scipy's t-test returns NaN for the
  statistic and for the p-value when a sample is empty, as the routine of the stand-in
  does; for the table without premium customers the analysis then returns a report with
  \<^verbatim>\<open>nan\<close> in three places and the verdict NO, and no error.
\<close>

theorem empty_group_counterexample:
  "fst (generate first_choice_library 4 0) = Inr demo_frame_no_premium \<and>
   getitem demo_frame_no_premium ''is_premium'' = Inr (Int64 [0, 0, 0, 0]) \<and>
   statistical_analysis first_choice_library demo_frame_no_premium =
     Inr ''Statistical Analysis Results\<newline>========================================\<newline>\<newline>Premium customers: 0\<newline>Non-premium customers: 4\<newline>\<newline>Mean spending (premium): $nan\<newline>Mean spending (non-premium): $76.22\<newline>\<newline>T-test results:\<newline>  t-statistic: nan\<newline>  p-value: nan\<newline>  Significant at p < 0.05: NO\<newline>''"
proof -
  have "statistical_analysis first_choice_library demo_frame_no_premium =
     Inr ''Statistical Analysis Results\<newline>========================================\<newline>\<newline>Premium customers: 0\<newline>Non-premium customers: 4\<newline>\<newline>Mean spending (premium): $nan\<newline>Mean spending (non-premium): $76.22\<newline>\<newline>T-test results:\<newline>  t-statistic: nan\<newline>  p-value: nan\<newline>  Significant at p < 0.05: NO\<newline>''"
    unfolding demo_frame_no_premium_def
    by (subst statistical_analysis_frame[where n = 4])
      (simp_all add: keep_def ttest_ind_first_choice_library demo_ttest_def mean_def
        report_text_def separator newline_def scaled_def round_half_even_def zfill_def
        str_nat.simps Let_def)
  then show ?thesis
    by (simp add: generate_first_choice_library_4 demo_frame_no_premium_def getitem_def)
qed

text \<open>
  Claim C4. In every row, age lies in \<open>[18, 70]\<close>, in the frame as first built and in
  the final frame alike (the age column is never assigned again), and spending_score
  lies in \<open>[1, 100]\<close> in the frame as first built, that is after clipping and before the
  income term is added. The final spending_score is not bounded by 100: a row whose
  clipped score is 100 ends above 100.
\<close>

theorem age_and_clipped_spending_bounds:
  assumes "sized lib" and "ieee_rounding (fround lib)"
  shows "\<exists>data0 data g age spending0 spending.
      initial_frame lib n g0 = (Inr data0, g) \<and>
      generate lib n g0 = (Inr data, g) \<and>
      getitem data0 ''age'' = Inr (Float64 age) \<and>
      getitem data ''age'' = Inr (Float64 age) \<and>
      getitem data0 ''spending_score'' = Inr (Float64 spending0) \<and>
      getitem data ''spending_score'' = Inr (Float64 spending) \<and>
      length age = n \<and> length spending0 = n \<and> length spending = n \<and>
      (\<forall>k<n. 18 \<le> age ! k \<and> age ! k \<le> 70 \<and>
              1 \<le> spending0 ! k \<and> spending0 ! k \<le> 100 \<and>
              (spending0 ! k = 100 \<longrightarrow> 100 < spending ! k))"
proof -
  obtain a i s r p g where d: "draws lib n = (a, i, s, r, p, g)"
    by (metis prod_cases3)
  note len = draws_lengths[OF assms(1) d]
  obtain age income spending where
    run: "generate lib n g0 =
        (Inr [(''customer_id'', Int64 (py_range 1 (int n + 1))),
              (''age'', Float64 age),
              (''income'', Float64 income),
              (''spending_score'', Float64 spending),
              (''region'', Object r),
              (''is_premium'', Int64 p)], g)"
    and rows: "length age = n" "length income = n" "length spending = n"
      "\<forall>k<n. age ! k = clip1 18 70 (a ! k) \<and>
              income ! k = row_income (fround lib) (i ! k) (age ! k) \<and>
              spending ! k = row_spending_score (fround lib) (s ! k) (income ! k)"
    using generate_rows[OF assms(1) d, of g0] by blast
  have age: "age = clip 18 70 a"
    by (rule nth_equalityI) (simp_all add: rows len clip_def clip1_def)
  have each: "18 \<le> age ! k \<and> age ! k \<le> 70 \<and>
      1 \<le> clip 1 100 s ! k \<and> clip 1 100 s ! k \<le> 100 \<and>
      (clip 1 100 s ! k = 100 \<longrightarrow> 100 < spending ! k)" if k: "k < n" for k
  proof -
    have a: "18 \<le> age ! k \<and> age ! k \<le> 70"
      using rows(4) k clip1_bounds[of 18 70 "a ! k"] by simp
    have c: "clip 1 100 s ! k = clip1 1 100 (s ! k)"
      using k len by (simp add: clip_def clip1_def)
    have b: "1 \<le> clip1 1 100 (s ! k) \<and> clip1 1 100 (s ! k) \<le> 100"
      by (rule clip1_bounds) simp
    have inc: "34400 \<le> income ! k"
      using rows(4) k row_income_bounds[OF assms(2), of "age ! k" "i ! k"] a by simp
    have "100 < spending ! k" if "clip1 1 100 (s ! k) = 100"
    proof -
      from that have "100 \<le> s ! k"
        by (simp add: clip1_def min_def max_def split: if_splits)
      then show ?thesis
        using rows(4) k row_spending_score_above[OF assms(2) inc] by simp
    qed
    with a b c show ?thesis by simp
  qed
  show ?thesis
    unfolding run initial_frame_closed[OF assms(1) d] age[symmetric]
    using rows(1,3) len each by (simp add: getitem_def clip_def)
qed

theorem age_and_clipped_spending_bounds_witness:
  "sized demo_library \<and> ieee_rounding (fround demo_library) \<and>
   (\<exists>data0 data.
      initial_frame demo_library 4 0 = (Inr data0, 62) \<and>
      generate demo_library 4 0 = (Inr data, 62) \<and>
      getitem data0 ''age'' = Inr (Float64 [55, 70, 18, 25]) \<and>
      getitem data ''age'' = Inr (Float64 [55, 70, 18, 25]) \<and>
      getitem data0 ''spending_score'' = Inr (Float64 [90, 100, 1, 30]) \<and>
      getitem data ''spending_score'' = Inr (Float64 [574 / 5, 706 / 5, 197 / 25, 41]))"
proof -
  obtain data0 data g age spending0 spending where
    "initial_frame demo_library 4 0 = (Inr data0, g)"
    "generate demo_library 4 0 = (Inr data, g)"
    "getitem data0 ''age'' = Inr (Float64 age)"
    "getitem data ''age'' = Inr (Float64 age)"
    "getitem data0 ''spending_score'' = Inr (Float64 spending0)"
    "getitem data ''spending_score'' = Inr (Float64 spending)"
    using age_and_clipped_spending_bounds[OF sized_demo_library ieee_rounding_demo_library,
        of 4 0]
    by blast
  then show ?thesis
    by (auto simp: initial_frame_demo_library_4 generate_demo_library_4 demo_frame_def
        getitem_def sized_demo_library ieee_rounding_demo_library)
qed

text \<open>
  Claim C5. With a library whose draws have the size asked for, the stage returns a
  frame whose customer_id column has 1000 entries, entry \<open>k\<close> (counted from 0) being
  \<open>k + 1\<close>: the integers 1 to 1000 in increasing order. The frame a complete run ends
  with is that frame: no later stage assigns to it.
\<close>

theorem customer_id_sequential:
  assumes "sized lib"
  shows "\<exists>data g ids. generate lib n_samples g0 = (Inr data, g) \<and>
           getitem data ''customer_id'' = Inr (Int64 ids) \<and>
           length ids = 1000 \<and> (\<forall>k<1000. ids ! k = int k + 1) \<and>
           (\<forall>out. run lib g0 = Inr out \<longrightarrow> out_data out = data)"
proof -
  obtain a i s r p g where d: "draws lib n_samples = (a, i, s, r, p, g)"
    by (metis prod_cases3)
  note closed = generate_closed[OF assms d, of g0]
  have "\<forall>out. run lib g0 = Inr out \<longrightarrow> Inr (out_data out) = fst (generate lib n_samples g0)"
    using run_keeps_data by metis
  then show ?thesis
    unfolding closed
    by (simp add: getitem_def length_py_range nth_py_range n_samples_def)
qed

theorem customer_id_sequential_witness:
  "sized demo_library \<and>
   (\<exists>data g. generate demo_library n_samples 7 = (Inr data, g) \<and>
      getitem data ''customer_id'' = Inr (Int64 [1..1000]))"
proof -
  obtain data g ids where run: "generate demo_library n_samples 7 = (Inr data, g)"
    and col: "getitem data ''customer_id'' = Inr (Int64 ids)"
    and len: "length ids = 1000" and nth: "\<forall>k<1000. ids ! k = int k + 1"
    using customer_id_sequential[OF sized_demo_library, of 7] by blast
  have "ids = [1..1000]"
    by (rule nth_equalityI) (simp_all add: len nth)
  with run col show ?thesis
    by (auto simp: sized_demo_library)
qed








text \<open>
  Claim C9. The generated frame has six columns, of which the numeric ones are
  customer_id, age, income, spending_score and is_premium, in this order. These five,
  the identifier and the 0/1 flag among them, are the columns of the summary statistics
  (and of the header of the summary file, after the empty field of the index) and the
  labels of the correlation matrix, which is 5 by 5. The column region is in neither.
\<close>

theorem numeric_columns:
  assumes "sized lib"
  shows "\<exists>data g matrix.
      generate lib n g0 = (Inr data, g) \<and>
      columns data =
        [''customer_id'', ''age'', ''income'', ''spending_score'', ''region'', ''is_premium''] \<and>
      columns (select_dtypes_number data) =
        [''customer_id'', ''age'', ''income'', ''spending_score'', ''is_premium''] \<and>
      map fst (describe (describe_1d lib) data) =
        [''customer_id'', ''age'', ''income'', ''spending_score'', ''is_premium''] \<and>
      hd (summary_to_csv (float_repr lib) (describe (describe_1d lib) data)) =
        '',customer_id,age,income,spending_score,is_premium'' \<and>
      corr (select_dtypes_number data) =
        Inr ([''customer_id'', ''age'', ''income'', ''spending_score'', ''is_premium''], matrix) \<and>
      length matrix = 5 \<and> list_all (\<lambda>row. length row = 5) matrix"
proof -
  obtain a i s r p g where d: "draws lib n = (a, i, s, r, p, g)"
    by (metis prod_cases3)
  obtain age income spending where
    run: "generate lib n g0 =
        (Inr [(''customer_id'', Int64 (py_range 1 (int n + 1))),
              (''age'', Float64 age),
              (''income'', Float64 income),
              (''spending_score'', Float64 spending),
              (''region'', Object r),
              (''is_premium'', Int64 p)], g)"
    using generate_rows[OF assms d, of g0] by blast
  show ?thesis
    unfolding run
    by (simp add: columns_def select_dtypes_number_def describe_def List.map_filter_simps
        summary_to_csv_def csv_line_def csv_field_def corr_def)
qed

theorem numeric_columns_witness:
  "sized demo_library \<and>
   generate demo_library 4 0 = (Inr demo_frame, 62) \<and>
   columns (select_dtypes_number demo_frame) =
     [''customer_id'', ''age'', ''income'', ''spending_score'', ''is_premium''] \<and>
   map fst (describe (describe_1d demo_library) demo_frame) =
     [''customer_id'', ''age'', ''income'', ''spending_score'', ''is_premium''] \<and>
   (\<exists>matrix. corr (select_dtypes_number demo_frame) =
      Inr ([''customer_id'', ''age'', ''income'', ''spending_score'', ''is_premium''], matrix))"
proof -
  obtain data g matrix where
    "generate demo_library 4 0 = (Inr data, g)"
    "columns (select_dtypes_number data) =
        [''customer_id'', ''age'', ''income'', ''spending_score'', ''is_premium'']"
    "map fst (describe (describe_1d demo_library) data) =
        [''customer_id'', ''age'', ''income'', ''spending_score'', ''is_premium'']"
    "corr (select_dtypes_number data) =
        Inr ([''customer_id'', ''age'', ''income'', ''spending_score'', ''is_premium''], matrix)"
    using numeric_columns[OF sized_demo_library, of 4 0] by auto
  then show ?thesis
    using sized_demo_library by (auto simp: generate_demo_library_4)
qed

text \<open>
  Claim C10. In every row the final income is the clipped draw, which lies in
  \<open>[20000, 150000]\<close>, plus the age term, which lies in \<open>[14400, 56000]\<close> because age
  lies in \<open>[18, 70]\<close>; so the final income lies in \<open>[34400, 206000]\<close>. Both ends are
  reached: a row whose two draws are clipped at the upper bounds ends at 206000, above
  the clipping ceiling of 150000, and one clipped at the lower bounds ends at 34400.
\<close>

theorem final_income_bounds:
  assumes "sized lib" and "ieee_rounding (fround lib)"
    and "draws lib n = (a, i, s, r, p, g)"
  shows "\<exists>data age income.
      generate lib n g0 = (Inr data, g) \<and>
      getitem data ''age'' = Inr (Float64 age) \<and>
      getitem data ''income'' = Inr (Float64 income) \<and>
      length age = n \<and> length income = n \<and>
      (\<forall>k<n. income ! k =
                fround lib (clip1 20000 150000 (i ! k) + fround lib (age ! k * 800)) \<and>
              20000 \<le> clip1 20000 150000 (i ! k) \<and> clip1 20000 150000 (i ! k) \<le> 150000 \<and>
              18 \<le> age ! k \<and> age ! k \<le> 70 \<and>
              14400 \<le> fround lib (age ! k * 800) \<and> fround lib (age ! k * 800) \<le> 56000 \<and>
              34400 \<le> income ! k \<and> income ! k \<le> 206000 \<and>
              (150000 \<le> i ! k \<and> 70 \<le> a ! k \<longrightarrow> income ! k = 206000) \<and>
              (i ! k \<le> 20000 \<and> a ! k \<le> 18 \<longrightarrow> income ! k = 34400))"
proof -
  obtain age income spending where
    run: "generate lib n g0 =
        (Inr [(''customer_id'', Int64 (py_range 1 (int n + 1))),
              (''age'', Float64 age),
              (''income'', Float64 income),
              (''spending_score'', Float64 spending),
              (''region'', Object r),
              (''is_premium'', Int64 p)], g)"
    and rows: "length age = n" "length income = n" "length spending = n"
      "\<forall>k<n. age ! k = clip1 18 70 (a ! k) \<and>
              income ! k = row_income (fround lib) (i ! k) (age ! k) \<and>
              spending ! k = row_spending_score (fround lib) (s ! k) (income ! k)"
    using generate_rows[OF assms(1,3), of g0] by blast
  have r14: "fround lib 14400 = 14400" and r56: "fround lib 56000 = 56000"
    and r344: "fround lib 34400 = 34400" and r206: "fround lib 206000 = 206000"
    using ieee_rounding_int[OF assms(2), of 14400] ieee_rounding_int[OF assms(2), of 56000]
      ieee_rounding_int[OF assms(2), of 34400] ieee_rounding_int[OF assms(2), of 206000]
    by simp_all
  have each: "income ! k =
                fround lib (clip1 20000 150000 (i ! k) + fround lib (age ! k * 800)) \<and>
              20000 \<le> clip1 20000 150000 (i ! k) \<and> clip1 20000 150000 (i ! k) \<le> 150000 \<and>
              18 \<le> age ! k \<and> age ! k \<le> 70 \<and>
              14400 \<le> fround lib (age ! k * 800) \<and> fround lib (age ! k * 800) \<le> 56000 \<and>
              34400 \<le> income ! k \<and> income ! k \<le> 206000 \<and>
              (150000 \<le> i ! k \<and> 70 \<le> a ! k \<longrightarrow> income ! k = 206000) \<and>
              (i ! k \<le> 20000 \<and> a ! k \<le> 18 \<longrightarrow> income ! k = 34400)" if k: "k < n" for k
  proof -
    have ak: "age ! k = clip1 18 70 (a ! k)"
      and ik: "income ! k = row_income (fround lib) (i ! k) (age ! k)"
      using rows(4) k by simp_all
    have a: "18 \<le> age ! k \<and> age ! k \<le> 70"
      unfolding ak by (rule clip1_bounds) simp
    have c: "20000 \<le> clip1 20000 150000 (i ! k) \<and> clip1 20000 150000 (i ! k) \<le> 150000"
      by (rule clip1_bounds) simp
    have t: "14400 \<le> fround lib (age ! k * 800) \<and> fround lib (age ! k * 800) \<le> 56000"
      using ieee_rounding_between[OF assms(2), of 14400 56000 "age ! k * 800"] a by simp
    have b: "34400 \<le> income ! k \<and> income ! k \<le> 206000"
      unfolding ik using row_income_bounds[OF assms(2)] a by simp
    have hi: "income ! k = 206000" if "150000 \<le> i ! k" "70 \<le> a ! k"
      using that by (simp add: ik ak row_income_def clip1_def r56 r206)
    have lo: "income ! k = 34400" if "i ! k \<le> 20000" "a ! k \<le> 18"
      using that by (simp add: ik ak row_income_def clip1_def r14 r344 min_def max_def)
    from a c t b hi lo show ?thesis
      by (simp add: ik row_income_def)
  qed
  then have all: "\<forall>k<n. income ! k =
                fround lib (clip1 20000 150000 (i ! k) + fround lib (age ! k * 800)) \<and>
              20000 \<le> clip1 20000 150000 (i ! k) \<and> clip1 20000 150000 (i ! k) \<le> 150000 \<and>
              18 \<le> age ! k \<and> age ! k \<le> 70 \<and>
              14400 \<le> fround lib (age ! k * 800) \<and> fround lib (age ! k * 800) \<le> 56000 \<and>
              34400 \<le> income ! k \<and> income ! k \<le> 206000 \<and>
              (150000 \<le> i ! k \<and> 70 \<le> a ! k \<longrightarrow> income ! k = 206000) \<and>
              (i ! k \<le> 20000 \<and> a ! k \<le> 18 \<longrightarrow> income ! k = 34400)"
    by blast
  have "getitem [(''customer_id'', Int64 (py_range 1 (int n + 1))),
              (''age'', Float64 age),
              (''income'', Float64 income),
              (''spending_score'', Float64 spending),
              (''region'', Object r),
              (''is_premium'', Int64 p)] ''age'' = Inr (Float64 age)"
    and "getitem [(''customer_id'', Int64 (py_range 1 (int n + 1))),
              (''age'', Float64 age),
              (''income'', Float64 income),
              (''spending_score'', Float64 spending),
              (''region'', Object r),
              (''is_premium'', Int64 p)] ''income'' = Inr (Float64 income)"
    by (simp_all add: getitem_def)
  with run rows(1,2) all show ?thesis
    by blast
qed

theorem final_income_bounds_witness:
  "sized demo_library \<and> ieee_rounding (fround demo_library) \<and>
   draws demo_library 4 =
     ([55, 105, - 35, 25], [80000, 155000, - 55000, 35000], [90, 190, - 90, 30],
      [''East'', ''West'', ''North'', ''South''], [0, 1, 0, 1], 62) \<and>
   (\<exists>data. generate demo_library 4 0 = (Inr data, 62) \<and>
      getitem data ''income'' = Inr (Float64 [124000, 206000, 34400, 55000]))"
proof -
  obtain data age income where
    "generate demo_library 4 0 = (Inr data, 62)"
    "getitem data ''age'' = Inr (Float64 age)"
    "getitem data ''income'' = Inr (Float64 income)"
    using final_income_bounds[OF sized_demo_library ieee_rounding_demo_library
        draws_demo_library_4, of 0]
    by blast
  then show ?thesis
    by (auto simp: generate_demo_library_4 demo_frame_def getitem_def sized_demo_library
        ieee_rounding_demo_library draws_demo_library_4)
qed

end
